theory Spec2Isabelle
  imports Complex_Main "HOL-Library.Word" "HOL-Library.Sublist"
begin

section \<open>Errors\<close>

text \<open>
  The error codes used by the loaders of \<^verbatim>\<open>Collision.cc\<close>, \<^verbatim>\<open>Actor.cc\<close> and
  \<^verbatim>\<open>Utils.hh\<close>, followed by the codes the specification lists for the frame graphs.
  An \<^verbatim>\<open>sdf::Error\<close> is a code with a message; \<^verbatim>\<open>sdf::Errors\<close> is a vector of them.
\<close>

datatype ErrorCode =
    ELEMENT_INCORRECT_TYPE
  | ATTRIBUTE_MISSING
  | ELEMENT_MISSING
  | ELEMENT_INVALID
  | DUPLICATE_NAME
  | RESERVED_NAME
  | FRAME_ATTACHED_TO_CYCLE
  | FRAME_ATTACHED_TO_INVALID
  | POSE_RELATIVE_TO_CYCLE
  | POSE_RELATIVE_TO_INVALID
  | INVALID_GRAPH_REFERENCE

datatype Error = Error (Code: ErrorCode) (Message: string)

type_synonym Errors = "Error list"

section \<open>The element tree\<close>

text \<open>
  Modelled from the spec: ElementView, the class \<^verbatim>\<open>sdf::Element\<close> whose implementation is
  not among the sources. It is "a queryable node exposing a tag name, a set of typed
  attributes, and an ordered sequence of typed child nodes", read through
  \<^verbatim>\<open>Get<T>(name, default) -> (T, wasSet)\<close>. A \<^verbatim>\<open>double\<close> is only stored and copied by the
  code modelled here, never computed with, and is held as a real number; the pose type
  \<^verbatim>\<open>ignition::math::Pose3d\<close> belongs to another library and is the type parameter \<open>'p\<close>.
\<close>

datatype 'p Value =
    StringValue string
  | BoolValue bool
  | DoubleValue real
  | UInt64Value "64 word"
  | PoseValue 'p

datatype 'p Element =
  Element (GetName: string) (attributes: "(string \<times> 'p Value) list")
    (elementValue: "'p Value option") (elements: "'p Element list")

text \<open>An \<^verbatim>\<open>sdf::ElementPtr\<close> may be null: it is an optional element.\<close>

type_synonym 'p ElementPtr = "'p Element option"

text \<open>
  Modelled from the spec: the queries \<^verbatim>\<open>HasElement\<close> and \<^verbatim>\<open>GetElement\<close> of the element
  class (not among the sources): whether a child with the given tag exists, and the first
  such child or null.
\<close>

definition HasElement :: "'p Element \<Rightarrow> string \<Rightarrow> bool" where
  "HasElement sdf n = (find (\<lambda>c. GetName c = n) (elements sdf) \<noteq> None)"

definition GetElement :: "'p Element \<Rightarrow> string \<Rightarrow> 'p ElementPtr" where
  "GetElement sdf n = find (\<lambda>c. GetName c = n) (elements sdf)"

text \<open>
  Modelled from the spec: \<^verbatim>\<open>ChildrenOfKind(kind)\<close>, the children a loop \<^verbatim>\<open>elem =
  sdf->GetElement(n); while (elem) { ...; elem = elem->GetNextElement(n); }\<close> visits, in
  document order (\<^verbatim>\<open>GetNextElement\<close> is not among the sources).
\<close>

definition ChildrenOfKind :: "'p Element \<Rightarrow> string \<Rightarrow> 'p Element list" where
  "ChildrenOfKind sdf n = filter (\<lambda>c. GetName c = n) (elements sdf)"

text \<open>
  Modelled from the spec: the typed \<^verbatim>\<open>Get<T>(name, default) -> (T, wasSet)\<close> of the element
  class (not among the sources), one function per type \<^verbatim>\<open>T\<close> the loaders use. The key
  names an attribute or else a child element holding a value; when neither holds a value
  of the type asked for, the default is returned with \<open>False\<close>.
\<close>

definition lookupValue :: "'p Element \<Rightarrow> string \<Rightarrow> 'p Value option" where
  "lookupValue sdf key =
     (case map_of (attributes sdf) key of
        Some v \<Rightarrow> Some v
      | None \<Rightarrow> (case GetElement sdf key of Some c \<Rightarrow> elementValue c | None \<Rightarrow> None))"

definition Get_string :: "'p Element \<Rightarrow> string \<Rightarrow> string \<Rightarrow> string \<times> bool" where
  "Get_string sdf key dflt =
     (case lookupValue sdf key of Some (StringValue s) \<Rightarrow> (s, True) | _ \<Rightarrow> (dflt, False))"

definition Get_bool :: "'p Element \<Rightarrow> string \<Rightarrow> bool \<Rightarrow> bool \<times> bool" where
  "Get_bool sdf key dflt =
     (case lookupValue sdf key of Some (BoolValue b) \<Rightarrow> (b, True) | _ \<Rightarrow> (dflt, False))"

definition Get_double :: "'p Element \<Rightarrow> string \<Rightarrow> real \<Rightarrow> real \<times> bool" where
  "Get_double sdf key dflt =
     (case lookupValue sdf key of Some (DoubleValue d) \<Rightarrow> (d, True) | _ \<Rightarrow> (dflt, False))"

definition Get_uint64 :: "'p Element \<Rightarrow> string \<Rightarrow> 64 word \<Rightarrow> 64 word \<times> bool" where
  "Get_uint64 sdf key dflt =
     (case lookupValue sdf key of Some (UInt64Value n) \<Rightarrow> (n, True) | _ \<Rightarrow> (dflt, False))"

definition Get_pose :: "'p Element \<Rightarrow> string \<Rightarrow> 'p \<Rightarrow> 'p \<times> bool" where
  "Get_pose sdf key dflt =
     (case lookupValue sdf key of Some (PoseValue p) \<Rightarrow> (p, True) | _ \<Rightarrow> (dflt, False))"

section \<open>Utils.hh\<close>




text \<open>
  Modelled from the spec: \<^verbatim>\<open>loadName\<close>, declared in \<^verbatim>\<open>Utils.hh\<close> ("Read the "name"
  attribute from an element; return true when the "name" attribute exists"). The pair is
  the string written to the out-parameter and the returned flag.
\<close>

definition loadName :: "'p Element \<Rightarrow> string \<times> bool" where
  "loadName sdf = Get_string sdf ''name'' []"

text \<open>
  Modelled from the spec: \<^verbatim>\<open>loadPose\<close>, declared in \<^verbatim>\<open>Utils.hh\<close> ("the pose value and
  coordinate frame; the default value of the frame attribute is an empty string; return
  true if the pose element contained a pose value"). \<open>zero\<close> is \<^verbatim>\<open>Pose3d::Zero\<close>. The
  triple is the pose, the frame and the returned flag; when the flag is false the
  out-parameters keep the values \<open>pose0\<close> and \<open>frame0\<close> they had.
\<close>

definition loadPose :: "'p \<Rightarrow> 'p Element \<Rightarrow> 'p \<Rightarrow> string \<Rightarrow> 'p \<times> string \<times> bool" where
  "loadPose zero sdf pose0 frame0 =
     (case (if GetName sdf = ''pose'' then Some sdf else GetElement sdf ''pose'') of
        None \<Rightarrow> (pose0, frame0, False)
      | Some e \<Rightarrow>
          (case elementValue e of
             Some (PoseValue p) \<Rightarrow> (p, fst (Get_string e ''relative_to'' []), True)
           | _ \<Rightarrow> (zero, fst (Get_string e ''relative_to'' []), True)))"

text \<open>
  \<^verbatim>\<open>loadUniqueRepeated<Class>(_sdf, _sdfName, _objs)\<close>. \<open>Load\<close> is \<^verbatim>\<open>Class::Load\<close> run on
  a default-constructed object (\<^verbatim>\<open>Class obj; obj.Load(elem)\<close>): it gives the errors and
  the loaded object. The loop state is the function's three vectors \<^verbatim>\<open>errors\<close>,
  \<^verbatim>\<open>_objs\<close> and \<^verbatim>\<open>names\<close>.
\<close>

definition duplicateNameError :: "string \<Rightarrow> string \<Rightarrow> Error" where
  "duplicateNameError sdfName n =
     Error DUPLICATE_NAME (sdfName @ '' with name['' @ n @ ''] already exists.'')"

fun loadUniqueRepeated_loop ::
  "('p Element \<Rightarrow> Errors \<times> 'c) \<Rightarrow> string \<Rightarrow> 'p Element list \<Rightarrow>
   Errors \<times> 'c list \<times> string list \<Rightarrow> Errors \<times> 'c list \<times> string list" where
  "loadUniqueRepeated_loop Load sdfName [] st = st"
| "loadUniqueRepeated_loop Load sdfName (elem # rest) (errors, objs, names) =
     (let (loadErrors, obj) = Load elem;
          n = fst (loadName elem);
          (errors1, objs1, names1) =
            (if n \<in> set names
             then (errors @ [duplicateNameError sdfName n], objs, names)
             else (errors, objs @ [obj], names @ [n]))
      in loadUniqueRepeated_loop Load sdfName rest (errors1 @ loadErrors, objs1, names1))"

definition loadUniqueRepeated ::
  "('p Element \<Rightarrow> Errors \<times> 'c) \<Rightarrow> 'p Element \<Rightarrow> string \<Rightarrow> 'c list \<Rightarrow> Errors \<times> 'c list" where
  "loadUniqueRepeated Load sdf sdfName objs =
     (if HasElement sdf sdfName
      then (case loadUniqueRepeated_loop Load sdfName (ChildrenOfKind sdf sdfName) ([], objs, [])
            of (errors, objs1, names) \<Rightarrow> (errors, objs1))
      else ([], objs))"

text \<open>
  The name \<^verbatim>\<open>loadUniqueRepeated\<close> reads from an element for its uniqueness check, and the
  elements of a list of siblings that repeat the name of an earlier sibling: the later
  occurrences of a name.
\<close>

definition nameOf :: "'p Element \<Rightarrow> string" where
  "nameOf elem = fst (loadName elem)"

definition repeatsEarlierName :: "'p Element list \<Rightarrow> nat \<Rightarrow> bool" where
  "repeatsEarlierName es i = (nameOf (es ! i) \<in> set (map nameOf (take i es)))"

text \<open>
  \<^verbatim>\<open>loadRepeated<Class>(_sdf, _sdfName, _objs, _beforeLoadFunc)\<close>. Here \<open>Load\<close> takes the
  object it loads into, \<open>obj0\<close> is the default-constructed \<^verbatim>\<open>Class obj\<close>, and an empty
  \<^verbatim>\<open>std::function\<close> is \<open>None\<close>.
\<close>

fun loadRepeated_loop ::
  "('c \<Rightarrow> 'p Element \<Rightarrow> Errors \<times> 'c) \<Rightarrow> 'c \<Rightarrow> ('c \<Rightarrow> 'c) option \<Rightarrow> 'p Element list \<Rightarrow>
   Errors \<times> 'c list \<Rightarrow> Errors \<times> 'c list" where
  "loadRepeated_loop Load obj0 beforeLoadFunc [] st = st"
| "loadRepeated_loop Load obj0 beforeLoadFunc (elem # rest) (errors, objs) =
     (let obj1 = (case beforeLoadFunc of Some f \<Rightarrow> f obj0 | None \<Rightarrow> obj0);
          (loadErrors, obj) = Load obj1 elem
      in loadRepeated_loop Load obj0 beforeLoadFunc rest (errors @ loadErrors, objs @ [obj]))"

definition loadRepeated ::
  "('c \<Rightarrow> 'p Element \<Rightarrow> Errors \<times> 'c) \<Rightarrow> 'c \<Rightarrow> ('c \<Rightarrow> 'c) option \<Rightarrow> 'p Element \<Rightarrow> string \<Rightarrow>
   'c list \<Rightarrow> Errors \<times> 'c list" where
  "loadRepeated Load obj0 beforeLoadFunc sdf sdfName objs =
     (if HasElement sdf sdfName
      then loadRepeated_loop Load obj0 beforeLoadFunc (ChildrenOfKind sdf sdfName) ([], objs)
      else ([], objs))"

section \<open>Collision.cc\<close>

text \<open>
  \<^verbatim>\<open>CollisionPrivate\<close>. The geometry class and the graph class are not among the sources
  and are the type parameters \<open>'geom\<close> and \<open>'g\<close>. The weak pointer to the model's
  \<^verbatim>\<open>PoseRelativeToGraph\<close> is held as what \<^verbatim>\<open>lock()\<close> gives: \<open>None\<close> once the graph's
  owner is gone.
\<close>

record ('p, 'geom, 'g) CollisionPrivate =
  Collision_name :: string
  Collision_pose :: 'p
  Collision_poseRelativeTo :: string
  Collision_geom :: 'geom
  Collision_sdf :: "'p ElementPtr"
  Collision_xmlParentName :: string
  Collision_poseRelativeToGraph :: "'g option"




definition invalidGraphError :: "string \<Rightarrow> Error" where
  "invalidGraphError n =
     Error ELEMENT_INVALID
       (''Collision with name ['' @ n @ ''] has invalid pointer to PoseRelativeToGraph.'')"

definition invalidXmlParentError :: "string \<Rightarrow> Error" where
  "invalidXmlParentError n =
     Error ELEMENT_INVALID
       (''Collision with name ['' @ n @ ''] has invalid name of xml parent object.'')"

text \<open>
  \<^verbatim>\<open>Collision::ResolvePose(_relativeTo, _pose)\<close>. \<open>resolvePose\<close> is the graph function
  \<^verbatim>\<open>resolvePose(*graph, collisionRelativeTo, _relativeTo, _pose)\<close>, whose body is not among
  the sources, taken as a parameter: from the graph, the two frame names and the pose
  passed by reference it gives its errors and the pose it leaves there. The function's
  own in-out parameter \<^verbatim>\<open>_pose\<close> is the argument \<open>pose\<close> and the second component of the
  result. \<^verbatim>\<open>_pose *= this->Pose()\<close> is the multiplication of the pose type.
\<close>

definition Collision_ResolvePose ::
  "('g \<Rightarrow> string \<Rightarrow> string \<Rightarrow> 'p \<Rightarrow> Errors \<times> 'p) \<Rightarrow> ('p::times, 'geom, 'g) CollisionPrivate \<Rightarrow>
   string \<Rightarrow> 'p \<Rightarrow> Errors \<times> 'p" where
  "Collision_ResolvePose resolvePose c relativeTo pose =
     (case Collision_poseRelativeToGraph c of
        None \<Rightarrow> ([invalidGraphError (Collision_name c)], pose)
      | Some graph \<Rightarrow>
          if Collision_xmlParentName c = []
          then ([invalidXmlParentError (Collision_name c)], pose)
          else
            let collisionRelativeTo =
                  (if Collision_poseRelativeTo c = []
                   then Collision_xmlParentName c
                   else Collision_poseRelativeTo c);
                (errors, pose1) = resolvePose graph collisionRelativeTo relativeTo pose
            in (errors, pose1 * Collision_pose c))"

text \<open>The overload \<^verbatim>\<open>Collision::ResolvePose(_pose)\<close>.\<close>

definition Collision_ResolvePose_parent ::
  "('g \<Rightarrow> string \<Rightarrow> string \<Rightarrow> 'p \<Rightarrow> Errors \<times> 'p) \<Rightarrow> ('p::times, 'geom, 'g) CollisionPrivate \<Rightarrow>
   'p \<Rightarrow> Errors \<times> 'p" where
  "Collision_ResolvePose_parent resolvePose c pose =
     Collision_ResolvePose resolvePose c (Collision_xmlParentName c) pose"

section \<open>Actor.cc\<close>

record AnimationPrivate =
  Animation_name :: string
  Animation_filename :: string
  Animation_scale :: real
  Animation_interpolateX :: bool

record 'p WaypointPrivate =
  Waypoint_time :: real
  Waypoint_pose :: 'p

record 'p TrajectoryPrivate =
  Trajectory_id :: "64 word"
  Trajectory_type :: string
  Trajectory_tension :: real
  Trajectory_waypoints :: "'p WaypointPrivate list"

record ('p, 'link, 'joint) ActorPrivate =
  Actor_name :: string
  Actor_pose :: 'p
  Actor_poseFrame :: string
  Actor_skinFilename :: string
  Actor_skinScale :: real
  Actor_animations :: "AnimationPrivate list"
  Actor_scriptLoop :: bool
  Actor_scriptDelayStart :: real
  Actor_scriptAutoStart :: bool
  Actor_trajectories :: "'p TrajectoryPrivate list"
  Actor_links :: "'link list"
  Actor_joints :: "'joint list"
  Actor_sdf :: "'p ElementPtr"

text \<open>The default-constructed objects.\<close>

definition Animation_new :: AnimationPrivate where
  "Animation_new =
     \<lparr>Animation_name = ''__default__'', Animation_filename = ''__default__'',
      Animation_scale = 1, Animation_interpolateX = False\<rparr>"

definition Waypoint_new :: "'p \<Rightarrow> 'p WaypointPrivate" where
  "Waypoint_new zero = \<lparr>Waypoint_time = 0, Waypoint_pose = zero\<rparr>"

definition Trajectory_new :: "'p TrajectoryPrivate" where
  "Trajectory_new =
     \<lparr>Trajectory_id = 0, Trajectory_type = ''__default__'', Trajectory_tension = 0,
      Trajectory_waypoints = []\<rparr>"

definition Actor_new :: "'p \<Rightarrow> ('p, 'link, 'joint) ActorPrivate" where
  "Actor_new zero =
     \<lparr>Actor_name = ''__default__'', Actor_pose = zero, Actor_poseFrame = [],
      Actor_skinFilename = ''__default__'', Actor_skinScale = 1, Actor_animations = [],
      Actor_scriptLoop = True, Actor_scriptDelayStart = 0, Actor_scriptAutoStart = True,
      Actor_trajectories = [], Actor_links = [], Actor_joints = [], Actor_sdf = None\<rparr>"

text \<open>\<^verbatim>\<open>Animation::Load\<close>.\<close>

definition Animation_Load :: "AnimationPrivate \<Rightarrow> 'p Element \<Rightarrow> Errors \<times> AnimationPrivate" where
  "Animation_Load a sdf =
     (let (n, hasName) = loadName sdf;
          a1 = a\<lparr>Animation_name := n\<rparr>;
          errors1 =
            (if \<not> hasName
             then [Error ATTRIBUTE_MISSING ''An <animation> requires a name attribute.'']
             else []);
          filenameValue = Get_string sdf ''filename'' (Animation_filename a1);
          errors2 =
            (if \<not> snd filenameValue
             then errors1 @ [Error ELEMENT_MISSING ''An <animation> requires a <filename>.'']
             else errors1);
          a2 = a1\<lparr>Animation_filename := fst filenameValue\<rparr>;
          a3 = a2\<lparr>Animation_scale := fst (Get_double sdf ''scale'' (Animation_scale a2))\<rparr>;
          a4 = a3\<lparr>Animation_interpolateX :=
                     fst (Get_bool sdf ''interpolate_x'' (Animation_interpolateX a3))\<rparr>
      in (errors2, a4))"

text \<open>\<^verbatim>\<open>Waypoint::Load\<close>.\<close>

definition Waypoint_Load :: "'p WaypointPrivate \<Rightarrow> 'p Element \<Rightarrow> Errors \<times> 'p WaypointPrivate" where
  "Waypoint_Load w sdf =
     (let timeValue = Get_double sdf ''time'' (Waypoint_time w);
          errors1 =
            (if \<not> snd timeValue
             then [Error ELEMENT_MISSING ''A <waypoint> requires a <time>.'']
             else []);
          w1 = w\<lparr>Waypoint_time := fst timeValue\<rparr>;
          posePair = Get_pose sdf ''pose'' (Waypoint_pose w1);
          errors2 =
            (if \<not> snd posePair
             then errors1 @ [Error ELEMENT_MISSING ''A <waypoint> requires a <pose>.'']
             else errors1);
          w2 = w1\<lparr>Waypoint_pose := fst posePair\<rparr>
      in (errors2, w2))"

text \<open>\<^verbatim>\<open>Trajectory::Load\<close>.\<close>

definition Trajectory_Load ::
  "'p \<Rightarrow> 'p TrajectoryPrivate \<Rightarrow> 'p Element \<Rightarrow> Errors \<times> 'p TrajectoryPrivate" where
  "Trajectory_Load zero t sdf =
     (let idValue = Get_uint64 sdf ''id'' (Trajectory_id t);
          errors1 =
            (if \<not> snd idValue
             then [Error ELEMENT_MISSING ''A <trajectory> requires a <id>.'']
             else []);
          t1 = t\<lparr>Trajectory_id := fst idValue\<rparr>;
          typePair = Get_string sdf ''type'' (Trajectory_type t1);
          errors2 =
            (if \<not> snd typePair
             then errors1 @ [Error ELEMENT_MISSING ''A <trajectory> requires a <type>.'']
             else errors1);
          t2 = t1\<lparr>Trajectory_type := fst typePair\<rparr>;
          t3 = t2\<lparr>Trajectory_tension := fst (Get_double sdf ''tension'' (Trajectory_tension t2))\<rparr>;
          (waypointLoadErrors, waypoints) =
            loadRepeated Waypoint_Load (Waypoint_new zero) None sdf ''waypoint''
              (Trajectory_waypoints t3)
      in (errors2 @ waypointLoadErrors, t3\<lparr>Trajectory_waypoints := waypoints\<rparr>))"

text \<open>
  \<^verbatim>\<open>Actor::Load\<close>. \<^verbatim>\<open>Link::Load\<close> and \<^verbatim>\<open>Joint::Load\<close> are not among the sources and are
  the parameters \<open>Link_Load\<close> and \<open>Joint_Load\<close>, with \<open>link0\<close> and \<open>joint0\<close> the
  default-constructed link and joint.
\<close>

definition Actor_Load ::
  "('link \<Rightarrow> 'p Element \<Rightarrow> Errors \<times> 'link) \<Rightarrow> 'link \<Rightarrow>
   ('joint \<Rightarrow> 'p Element \<Rightarrow> Errors \<times> 'joint) \<Rightarrow> 'joint \<Rightarrow> 'p \<Rightarrow>
   ('p, 'link, 'joint) ActorPrivate \<Rightarrow> 'p Element \<Rightarrow> Errors \<times> ('p, 'link, 'joint) ActorPrivate" where
  "Actor_Load Link_Load link0 Joint_Load joint0 zero a sdf =
     (let a0 = a\<lparr>Actor_sdf := Some sdf\<rparr> in
      if GetName sdf \<noteq> ''actor''
      then ([Error ELEMENT_INCORRECT_TYPE
               ''Attempting to load an actor, but the provided SDF element is not an<actor>.''],
            a0)
      else
        let (n, hasName) = loadName sdf;
            a1 = a0\<lparr>Actor_name := n\<rparr>;
            errors1 =
              (if \<not> hasName
               then [Error ATTRIBUTE_MISSING
                       ''An actor name is required, but the name is not set.'']
               else []);
            (p, frame, hasPose) = loadPose zero sdf (Actor_pose a1) (Actor_poseFrame a1);
            a2 = a1\<lparr>Actor_pose := p, Actor_poseFrame := frame\<rparr>;
            (errors2, a3) =
              (case GetElement sdf ''skin'' of
                 None \<Rightarrow> (errors1, a2)
               | Some skinElem \<Rightarrow>
                   let filenamePair = Get_string skinElem ''filename'' (Actor_skinFilename a2);
                       errorsS =
                         (if \<not> snd filenamePair
                          then errors1 @ [Error ELEMENT_MISSING ''A <skin> requires a <filename>.'']
                          else errors1);
                       aS = a2\<lparr>Actor_skinFilename := fst filenamePair\<rparr>
                   in (errorsS,
                       aS\<lparr>Actor_skinScale :=
                            fst (Get_double skinElem ''scale'' (Actor_skinScale aS))\<rparr>));
            (animationLoadErrors, animations) =
              loadUniqueRepeated (Animation_Load Animation_new) sdf ''animation''
                (Actor_animations a3);
            a4 = a3\<lparr>Actor_animations := animations\<rparr>;
            errors3 = errors2 @ animationLoadErrors;
            (errors4, a5) =
              (case GetElement sdf ''script'' of
                 None \<Rightarrow> (errors3 @ [Error ELEMENT_MISSING ''An <actor> requires a <script>.''], a4)
               | Some scriptElem \<Rightarrow>
                   let aL = a4\<lparr>Actor_scriptLoop :=
                                 fst (Get_bool scriptElem ''loop'' (Actor_scriptLoop a4))\<rparr>;
                       aD = aL\<lparr>Actor_scriptDelayStart :=
                                 fst (Get_double scriptElem ''delay_start''
                                        (Actor_scriptDelayStart aL))\<rparr>;
                       aA = aD\<lparr>Actor_scriptAutoStart :=
                                 fst (Get_bool scriptElem ''auto_start''
                                        (Actor_scriptAutoStart aD))\<rparr>;
                       (trajectoryLoadErrors, trajectories) =
                         loadRepeated (Trajectory_Load zero) Trajectory_new None scriptElem
                           ''trajectory'' (Actor_trajectories aA)
                   in (errors3 @ trajectoryLoadErrors,
                       aA\<lparr>Actor_trajectories := trajectories\<rparr>));
            (linkLoadErrors, links) =
              loadRepeated Link_Load link0 None sdf ''link'' (Actor_links a5);
            a6 = a5\<lparr>Actor_links := links\<rparr>;
            errors5 = errors4 @ linkLoadErrors;
            (jointLoadErrors, joints) =
              loadRepeated Joint_Load joint0 None sdf ''joint'' (Actor_joints a6);
            a7 = a6\<lparr>Actor_joints := joints\<rparr>
        in (errors5 @ jointLoadErrors, a7))"

subsection \<open>Index-based accessors\<close>

text \<open>
  What an accessor returns: the null pointer, or the address of a stored element, given as
  the element's position and value. \<^verbatim>\<open>std::vector::operator[]\<close> past the end of the vector
  is undefined behaviour; \<open>OutOfRange\<close> stands for it, so that an accessor that could read
  out of bounds shows it in its result.
\<close>

datatype 'a Pointer = Nullptr | PointerTo nat 'a | OutOfRange

definition vector_index :: "'a list \<Rightarrow> 64 word \<Rightarrow> 'a Pointer" where
  "vector_index v i = (if unat i < length v then PointerTo (unat i) (v ! unat i) else OutOfRange)"

text \<open>\<^verbatim>\<open>size()\<close> as the 64-bit unsigned value the comparison and the counters read.\<close>

definition vector_size :: "'a list \<Rightarrow> 64 word" where
  "vector_size v = word_of_nat (length v)"

definition WaypointCount :: "'p TrajectoryPrivate \<Rightarrow> 64 word" where
  "WaypointCount t = vector_size (Trajectory_waypoints t)"

definition WaypointByIndex :: "'p TrajectoryPrivate \<Rightarrow> 64 word \<Rightarrow> 'p WaypointPrivate Pointer" where
  "WaypointByIndex t index =
     (if index < vector_size (Trajectory_waypoints t)
      then vector_index (Trajectory_waypoints t) index
      else Nullptr)"

definition AnimationCount :: "('p, 'link, 'joint) ActorPrivate \<Rightarrow> 64 word" where
  "AnimationCount a = vector_size (Actor_animations a)"

definition AnimationByIndex ::
  "('p, 'link, 'joint) ActorPrivate \<Rightarrow> 64 word \<Rightarrow> AnimationPrivate Pointer" where
  "AnimationByIndex a index =
     (if index < vector_size (Actor_animations a)
      then vector_index (Actor_animations a) index
      else Nullptr)"

definition TrajectoryCount :: "('p, 'link, 'joint) ActorPrivate \<Rightarrow> 64 word" where
  "TrajectoryCount a = vector_size (Actor_trajectories a)"

definition TrajectoryByIndex ::
  "('p, 'link, 'joint) ActorPrivate \<Rightarrow> 64 word \<Rightarrow> 'p TrajectoryPrivate Pointer" where
  "TrajectoryByIndex a index =
     (if index < vector_size (Actor_trajectories a)
      then vector_index (Actor_trajectories a) index
      else Nullptr)"

definition LinkCount :: "('p, 'link, 'joint) ActorPrivate \<Rightarrow> 64 word" where
  "LinkCount a = vector_size (Actor_links a)"

definition LinkByIndex :: "('p, 'link, 'joint) ActorPrivate \<Rightarrow> 64 word \<Rightarrow> 'link Pointer" where
  "LinkByIndex a index =
     (if index < vector_size (Actor_links a)
      then vector_index (Actor_links a) index
      else Nullptr)"

definition JointCount :: "('p, 'link, 'joint) ActorPrivate \<Rightarrow> 64 word" where
  "JointCount a = vector_size (Actor_joints a)"

definition JointByIndex :: "('p, 'link, 'joint) ActorPrivate \<Rightarrow> 64 word \<Rightarrow> 'joint Pointer" where
  "JointByIndex a index =
     (if index < vector_size (Actor_joints a)
      then vector_index (Actor_joints a) index
      else Nullptr)"

section \<open>The frame graphs\<close>

text \<open>
  Modelled from the spec: the data model of the attachment graph and the pose graph (the
  frame-semantics sources are not among the files; \<^verbatim>\<open>Collision.cc\<close> only calls them). A
  vertex has a name, the scope that owns it and a kind; an edge goes from one vertex to
  another and, in the pose graph, carries a rigid transform; a scope's graph has a single
  root vertex. The attachment graph is the instance whose edges carry nothing.
\<close>

datatype VertexKind =
  Link | Joint | Visual | Collision | ExplicitFrame | ModelPlaceholder | WorldRoot

record Vertex =
  name :: string
  scopeId :: string
  kind :: VertexKind

record 't Edge =
  edgeFrom :: string
  edgeTo :: string
  transform :: 't

record 't Graph =
  vertices :: "Vertex list"
  edges :: "'t Edge list"
  root :: string

text \<open>
  Modelled from the spec: rigid transforms. The spec composes and inverts them and has an
  identity; the model takes any type with these operations and the laws of a group,
  written additively by the library: \<open>compose a b\<close> is \<open>a\<close> after \<open>b\<close>. Floating-point
  rounding is outside the model.
\<close>

abbreviation Identity :: "'t::group_add" where
  "Identity \<equiv> 0"

abbreviation compose :: "'t::group_add \<Rightarrow> 't \<Rightarrow> 't" where
  "compose a b \<equiv> a + b"

abbreviation Inverse :: "'t::group_add \<Rightarrow> 't" where
  "Inverse a \<equiv> - a"

text \<open>
  Modelled from the spec: looking a vertex up by name, the outgoing edge of a vertex
  ("every non-root vertex has exactly one outgoing edge"), and the vertex count that
  bounds the walks.
\<close>

definition findVertex :: "'t Graph \<Rightarrow> string \<Rightarrow> Vertex option" where
  "findVertex g n = find (\<lambda>v. name v = n) (vertices g)"

definition outgoing :: "'t Graph \<Rightarrow> string \<Rightarrow> 't Edge option" where
  "outgoing g n = find (\<lambda>e. edgeFrom e = n) (edges g)"

definition vertexCount :: "'t Graph \<Rightarrow> nat" where
  "vertexCount g = length (vertices g)"

text \<open>
  Modelled from the spec: the invariants of a validly built graph. Names are unique
  within the scope; there is exactly one root, a WorldRoot or the model's own placeholder,
  with zero outgoing edges; every non-root vertex has exactly one outgoing edge; every
  edge's target exists; every vertex reaches the root in at most \<open>vertexCount\<close> hops.
\<close>

fun reachesRoot :: "'t Graph \<Rightarrow> nat \<Rightarrow> string \<Rightarrow> bool" where
  "reachesRoot g 0 n = (n = root g)"
| "reachesRoot g (Suc hops) n =
     (n = root g \<or>
      (case outgoing g n of None \<Rightarrow> False | Some e \<Rightarrow> reachesRoot g hops (edgeTo e)))"

definition isRoot :: "'t Graph \<Rightarrow> Vertex \<Rightarrow> bool" where
  "isRoot g v = (name v = root g)"

definition validGraph :: "'t Graph \<Rightarrow> bool" where
  "validGraph g =
     (distinct (map name (vertices g)) \<and>
      (case findVertex g (root g) of
         None \<Rightarrow> False
       | Some r \<Rightarrow> kind r = WorldRoot \<or> kind r = ModelPlaceholder) \<and>
      filter (\<lambda>e. edgeFrom e = root g) (edges g) = [] \<and>
      list_all (\<lambda>v. isRoot g v \<or> length (filter (\<lambda>e. edgeFrom e = name v) (edges g)) = 1)
        (vertices g) \<and>
      list_all (\<lambda>e. findVertex g (edgeTo e) \<noteq> None) (edges g) \<and>
      list_all (\<lambda>v. reachesRoot g (vertexCount g) (name v)) (vertices g))"

subsection \<open>Attachment graph\<close>

text \<open>
  Modelled from the spec: \<^verbatim>\<open>AttachmentGraph Resolve(vertexName) -> LinkVertex | Error\<close>.
  "Walk outgoing attachment edges starting at the named vertex, maintaining a visited
  set; stop when reaching a Link vertex, the WorldRoot, or a ModelPlaceholder. Revisiting
  a vertex signals a cycle: return error FRAME_ATTACHED_TO_CYCLE naming the repeated
  vertex. Exceeding the vertex count as a hop bound is the cycle-detection stop
  condition." A name that is no vertex, or a vertex the walk cannot leave, is
  FRAME_ATTACHED_TO_INVALID.
\<close>

definition canonicalTerminal :: "VertexKind \<Rightarrow> bool" where
  "canonicalTerminal k = (k = Link \<or> k = WorldRoot \<or> k = ModelPlaceholder)"

fun attachedWalk :: "unit Graph \<Rightarrow> nat \<Rightarrow> string list \<Rightarrow> string \<Rightarrow> Error + Vertex" where
  "attachedWalk g hops visited n =
     (case findVertex g n of
        None \<Rightarrow> Inl (Error FRAME_ATTACHED_TO_INVALID n)
      | Some v \<Rightarrow>
          if n \<in> set visited then Inl (Error FRAME_ATTACHED_TO_CYCLE n)
          else if canonicalTerminal (kind v) then Inr v
          else
            (case hops of
               0 \<Rightarrow> Inl (Error FRAME_ATTACHED_TO_CYCLE n)
             | Suc h \<Rightarrow>
                 (case outgoing g n of
                    None \<Rightarrow> Inl (Error FRAME_ATTACHED_TO_INVALID n)
                  | Some e \<Rightarrow> attachedWalk g h (n # visited) (edgeTo e))))"

text \<open>
  Modelled from the spec: \<^verbatim>\<open>ResolveAttachedTo(handle, vertexName)\<close>, the walk started with
  no vertex visited and the vertex count as its hop bound.
\<close>

definition ResolveAttachedTo :: "unit Graph \<Rightarrow> string \<Rightarrow> Error + Vertex" where
  "ResolveAttachedTo g n = attachedWalk g (vertexCount g) [] n"

subsection \<open>Pose graph\<close>

text \<open>
  Modelled from the spec: the walk of steps 1 and 2 of \<^verbatim>\<open>ResolvePose\<close>, "from the vertex
  to the root, recording the ordered list of edges traversed and their cumulative
  transform, tracking visited vertices to detect cycles". The chain lists each vertex
  passed with the transform accumulated up to it; an edge taken in its own direction
  pre-multiplies by its stored transform. A walk that does not end within the hop bound,
  or that comes back to a vertex, is POSE_RELATIVE_TO_CYCLE; one that meets a name that is
  no vertex, or a vertex it cannot leave, is POSE_RELATIVE_TO_INVALID.
\<close>

fun walkToRoot ::
  "('t::group_add) Graph \<Rightarrow> nat \<Rightarrow> string list \<Rightarrow> string \<Rightarrow> 't \<Rightarrow> Error + (string \<times> 't) list" where
  "walkToRoot g hops visited n acc =
     (case findVertex g n of
        None \<Rightarrow> Inl (Error POSE_RELATIVE_TO_INVALID n)
      | Some v \<Rightarrow>
          if n \<in> set visited then Inl (Error POSE_RELATIVE_TO_CYCLE n)
          else if n = root g then Inr [(n, acc)]
          else
            (case hops of
               0 \<Rightarrow> Inl (Error POSE_RELATIVE_TO_CYCLE n)
             | Suc h \<Rightarrow>
                 (case outgoing g n of
                    None \<Rightarrow> Inl (Error POSE_RELATIVE_TO_INVALID n)
                  | Some e \<Rightarrow>
                      (case walkToRoot g h (n # visited) (edgeTo e) (compose (transform e) acc) of
                         Inl err \<Rightarrow> Inl err
                       | Inr chain \<Rightarrow> Inr ((n, acc) # chain)))))"

text \<open>
  Modelled from the spec: step 3, "find the lowest common ancestor by comparing the two
  vertex chains (reverse search from the root end)". Both chains are read from the root
  end for as long as they name the same vertex; the last vertex they share is the
  ancestor, and the result is the two transforms accumulated up to it.
\<close>

fun lcaSearch ::
  "(string \<times> 't) list \<Rightarrow> (string \<times> 't) list \<Rightarrow> ('t \<times> 't) option \<Rightarrow> ('t \<times> 't) option" where
  "lcaSearch ((a, ta) # as) ((b, tb) # bs) found =
     (if a = b then lcaSearch as bs (Some (ta, tb)) else found)"
| "lcaSearch [] bs found = found"
| "lcaSearch as [] found = found"

definition lowestCommonAncestor ::
  "(string \<times> 't) list \<Rightarrow> (string \<times> 't) list \<Rightarrow> ('t \<times> 't) option" where
  "lowestCommonAncestor sourceToRoot targetToRoot =
     lcaSearch (rev sourceToRoot) (rev targetToRoot) None"

text \<open>
  Modelled from the spec: steps 1 to 4 of \<^verbatim>\<open>ResolvePose\<close>: the two walks, the ancestor
  search, and the composition "the source-to-LCA transform followed by the inverse of the
  target-to-LCA transform".
\<close>

definition resolveByWalks :: "('t::group_add) Graph \<Rightarrow> string \<Rightarrow> string \<Rightarrow> Error + 't" where
  "resolveByWalks g sourceName targetName =
     (case walkToRoot g (vertexCount g) [] sourceName Identity of
        Inl err \<Rightarrow> Inl err
      | Inr sourceToRoot \<Rightarrow>
          (case walkToRoot g (vertexCount g) [] targetName Identity of
             Inl err \<Rightarrow> Inl err
           | Inr targetToRoot \<Rightarrow>
               (case lowestCommonAncestor sourceToRoot targetToRoot of
                  None \<Rightarrow> Inl (Error POSE_RELATIVE_TO_INVALID targetName)
                | Some (sourceToLCA, targetToLCA) \<Rightarrow>
                    Inr (compose (Inverse targetToLCA) sourceToLCA))))"

text \<open>
  Modelled from the spec: \<^verbatim>\<open>PoseGraph ResolvePose(sourceName, targetName) -> Transform |
  Error\<close>. An absent source or target is POSE_RELATIVE_TO_INVALID; "resolving a vertex to
  itself always yields the identity transform without traversal"; every other query is
  answered by the walks.
\<close>

definition ResolvePose :: "('t::group_add) Graph \<Rightarrow> string \<Rightarrow> string \<Rightarrow> Error + 't" where
  "ResolvePose g sourceName targetName =
     (if findVertex g sourceName = None then Inl (Error POSE_RELATIVE_TO_INVALID sourceName)
      else if findVertex g targetName = None then Inl (Error POSE_RELATIVE_TO_INVALID targetName)
      else if sourceName = targetName then Inr Identity
      else resolveByWalks g sourceName targetName)"

text \<open>
  The number of hops in which a vertex reaches the root, used to reason about the walks:
  \<open>reachIn g k n\<close> holds when \<open>n\<close> is exactly \<open>k\<close> edges away from the root.
\<close>

fun reachIn :: "'t Graph \<Rightarrow> nat \<Rightarrow> string \<Rightarrow> bool" where
  "reachIn g 0 n = (n = root g)"
| "reachIn g (Suc k) n =
     (n \<noteq> root g \<and>
      (case outgoing g n of None \<Rightarrow> False | Some e \<Rightarrow> reachIn g k (edgeTo e)))"

section \<open>Example inputs\<close>

text \<open>
  Small concrete inputs on which the definitions are evaluated. Poses and transforms are
  integers here: translations along one axis, composed by multiplication in
  \<^verbatim>\<open>Collision.cc\<close>'s \<^verbatim>\<open>*=\<close> and by the group operation in the graphs.
\<close>

definition exampleAnimation :: "string \<Rightarrow> string \<Rightarrow> int Element" where
  "exampleAnimation n file =
     Element ''animation'' [(''name'', StringValue n)] None
       [Element ''filename'' [] (Some (StringValue file)) []]"

text \<open>An actor with two animations named "walk", one named "run", and nothing else.\<close>

definition exampleActor :: "int Element" where
  "exampleActor =
     Element ''actor'' [] None
       [Element ''skin'' [] None [],
        exampleAnimation ''walk'' ''walk.dae'',
        exampleAnimation ''walk'' ''walk2.dae'',
        exampleAnimation ''run'' ''run.dae'',
        Element ''link'' [(''name'', StringValue ''l1'')] None [],
        Element ''link'' [] None []]"

text \<open>A link loader that reads the name and reports a missing one; the link is its name.\<close>

definition exampleLinkLoad :: "string \<Rightarrow> int Element \<Rightarrow> Errors \<times> string" where
  "exampleLinkLoad l sdf =
     (if snd (loadName sdf) then ([], fst (loadName sdf))
      else ([Error ATTRIBUTE_MISSING ''A link name is required, but the name is not set.''],
            fst (loadName sdf)))"

definition exampleCollision :: "(int, unit, (string \<times> string) list) CollisionPrivate" where
  "exampleCollision =
     \<lparr>Collision_name = ''c'', Collision_pose = 3, Collision_poseRelativeTo = [],
      Collision_geom = (), Collision_sdf = None, Collision_xmlParentName = ''link'',
      Collision_poseRelativeToGraph = Some [(''link'', ''world'')]\<rparr>"

text \<open>
  A graph function for the examples: the graph lists the pairs of frames it can resolve;
  for such a pair it writes the pose 5, for any other it reports an error and writes 7.
\<close>

definition exampleResolvePose ::
  "(string \<times> string) list \<Rightarrow> string \<Rightarrow> string \<Rightarrow> int \<Rightarrow> Errors \<times> int" where
  "exampleResolvePose graph frameName resolveTo pose =
     (if (frameName, resolveTo) \<in> set graph then ([], 5)
      else ([Error POSE_RELATIVE_TO_INVALID resolveTo], 7))"



definition exampleTrajectory :: "int TrajectoryPrivate" where
  "exampleTrajectory =
     \<lparr>Trajectory_id = 1, Trajectory_type = ''walking'', Trajectory_tension = 0,
      Trajectory_waypoints =
        [\<lparr>Waypoint_time = 0, Waypoint_pose = 10\<rparr>, \<lparr>Waypoint_time = 1, Waypoint_pose = 11\<rparr>]\<rparr>"

definition exampleLoadedActor :: "(int, string, string) ActorPrivate" where
  "exampleLoadedActor =
     (Actor_new 0)\<lparr>Actor_animations := [Animation_new, Animation_new],
                   Actor_trajectories := [exampleTrajectory, exampleTrajectory],
                   Actor_links := [''l0'', ''l1''], Actor_joints := [''j0'', ''j1'']\<rparr>"

text \<open>
  A world with a link "base", a link "arm" placed relative to "base", and a frame "cam"
  placed relative to "base".
\<close>

definition examplePoseGraph :: "int Graph" where
  "examplePoseGraph =
     \<lparr>vertices =
        [\<lparr>name = ''world'', scopeId = ''w'', kind = WorldRoot\<rparr>,
         \<lparr>name = ''base'', scopeId = ''w'', kind = Link\<rparr>,
         \<lparr>name = ''arm'', scopeId = ''w'', kind = Link\<rparr>,
         \<lparr>name = ''cam'', scopeId = ''w'', kind = ExplicitFrame\<rparr>],
      edges =
        [\<lparr>edgeFrom = ''base'', edgeTo = ''world'', transform = 2\<rparr>,
         \<lparr>edgeFrom = ''arm'', edgeTo = ''base'', transform = 1\<rparr>,
         \<lparr>edgeFrom = ''cam'', edgeTo = ''base'', transform = 5\<rparr>],
      root = ''world''\<rparr>"

text \<open>
  A world with a link "base", a joint "hinge" whose child link is "base", and a frame
  "cam" attached to the joint.
\<close>

definition exampleAttachmentGraph :: "unit Graph" where
  "exampleAttachmentGraph =
     \<lparr>vertices =
        [\<lparr>name = ''world'', scopeId = ''w'', kind = WorldRoot\<rparr>,
         \<lparr>name = ''base'', scopeId = ''w'', kind = Link\<rparr>,
         \<lparr>name = ''hinge'', scopeId = ''w'', kind = Joint\<rparr>,
         \<lparr>name = ''cam'', scopeId = ''w'', kind = ExplicitFrame\<rparr>],
      edges =
        [\<lparr>edgeFrom = ''base'', edgeTo = ''world'', transform = ()\<rparr>,
         \<lparr>edgeFrom = ''hinge'', edgeTo = ''base'', transform = ()\<rparr>,
         \<lparr>edgeFrom = ''cam'', edgeTo = ''hinge'', transform = ()\<rparr>],
      root = ''world''\<rparr>"

section \<open>Pose queries through a collision\<close>

lemma error_messages_differ: "invalidGraphError n \<noteq> invalidXmlParentError m"
proof
  assume "invalidGraphError n = invalidXmlParentError m"
  then have "n @ ''] has invalid pointer to PoseRelativeToGraph.'' =
             m @ ''] has invalid name of xml parent object.''"
    by (simp add: invalidGraphError_def invalidXmlParentError_def)
  then have "rev (n @ ''] has invalid pointer to PoseRelativeToGraph.'') ! 1 =
             rev (m @ ''] has invalid name of xml parent object.'') ! 1"
    by simp
  then show False by simp
qed

text \<open>
  Claim C3, as stated, asks for a distinct error, of the spec's
  \<^verbatim>\<open>INVALID_GRAPH_REFERENCE\<close> class, when the graph reference has expired. The code has no
  such code: the expired-graph branch of \<^verbatim>\<open>Collision::ResolvePose\<close> reports
  \<^verbatim>\<open>ELEMENT_INVALID\<close>, the very code its other early return (a live graph, an empty XML
  parent name) reports. Here both failures are run on the example collision.
\<close>

theorem Collision_ResolvePose_distinct_error_counterexample:
  "map Code (fst (Collision_ResolvePose exampleResolvePose
                    (exampleCollision\<lparr>Collision_poseRelativeToGraph := None\<rparr>) ''world'' 1)) =
     [ELEMENT_INVALID] \<and>
   map Code (fst (Collision_ResolvePose exampleResolvePose
                    (exampleCollision\<lparr>Collision_xmlParentName := []\<rparr>) ''world'' 1)) =
     [ELEMENT_INVALID] \<and>
   ELEMENT_INVALID \<noteq> INVALID_GRAPH_REFERENCE"
  by (simp add: Collision_ResolvePose_def exampleCollision_def invalidGraphError_def
      invalidXmlParentError_def)

text \<open>
  Claim C3, amended. A pose query through a collision (either overload of
  \<^verbatim>\<open>Collision::ResolvePose\<close>) whose weak pointer to the \<^verbatim>\<open>PoseRelativeToGraph\<close> cannot be
  locked checks that first and returns exactly one error. Its code is \<^verbatim>\<open>ELEMENT_INVALID\<close>,
  the same code as the error of the function's other early return; the two errors differ
  in their messages only, whatever the collision names are. No graph resolution takes
  place: the result is the same for every graph function \<open>resolvePose\<close>, and the
  caller's pose comes back as it was passed.
\<close>

theorem Collision_ResolvePose_expired_graph:
  "Collision_poseRelativeToGraph c = None \<Longrightarrow>
     Collision_ResolvePose resolvePose c relativeTo pose =
       ([invalidGraphError (Collision_name c)], pose) \<and>
     Collision_ResolvePose_parent resolvePose c pose =
       ([invalidGraphError (Collision_name c)], pose) \<and>
     Code (invalidGraphError (Collision_name c)) = ELEMENT_INVALID \<and>
     (\<forall>m. Code (invalidXmlParentError m) = Code (invalidGraphError (Collision_name c))) \<and>
     (\<forall>m. invalidGraphError (Collision_name c) \<noteq> invalidXmlParentError m)"
  by (simp add: Collision_ResolvePose_def Collision_ResolvePose_parent_def error_messages_differ)
    (simp add: invalidGraphError_def invalidXmlParentError_def)

theorem Collision_ResolvePose_expired_graph_witness:
  "Collision_poseRelativeToGraph (exampleCollision\<lparr>Collision_poseRelativeToGraph := None\<rparr>) = None \<and>
   Collision_ResolvePose exampleResolvePose
     (exampleCollision\<lparr>Collision_poseRelativeToGraph := None\<rparr>) ''world'' 1 =
     ([Error ELEMENT_INVALID
         ''Collision with name [c] has invalid pointer to PoseRelativeToGraph.''], 1) \<and>
   Collision_ResolvePose_parent exampleResolvePose
     (exampleCollision\<lparr>Collision_poseRelativeToGraph := None\<rparr>) 1 =
     ([Error ELEMENT_INVALID
         ''Collision with name [c] has invalid pointer to PoseRelativeToGraph.''], 1)"
  using Collision_ResolvePose_expired_graph
    [of "exampleCollision\<lparr>Collision_poseRelativeToGraph := None\<rparr>" exampleResolvePose]
  by (simp add: exampleCollision_def invalidGraphError_def)

text \<open>
  Claim C4. A collision whose \<^verbatim>\<open>PoseRelativeTo()\<close> is empty is resolved starting from the
  frame named by its XML parent, the owning link: with a live graph and a parent name,
  \<^verbatim>\<open>ResolvePose(_relativeTo, _pose)\<close> passes the parent's name to the graph function as the
  frame to start from, and the one-argument overload also resolves relative to that same
  parent frame.
\<close>

theorem Collision_ResolvePose_default_relative_to:
  "Collision_poseRelativeToGraph c = Some graph \<Longrightarrow> Collision_xmlParentName c \<noteq> [] \<Longrightarrow>
   Collision_poseRelativeTo c = [] \<Longrightarrow>
     Collision_ResolvePose resolvePose c relativeTo pose =
       (fst (resolvePose graph (Collision_xmlParentName c) relativeTo pose),
        snd (resolvePose graph (Collision_xmlParentName c) relativeTo pose) * Collision_pose c) \<and>
     Collision_ResolvePose_parent resolvePose c pose =
       (fst (resolvePose graph (Collision_xmlParentName c) (Collision_xmlParentName c) pose),
        snd (resolvePose graph (Collision_xmlParentName c) (Collision_xmlParentName c) pose)
          * Collision_pose c)"
  by (simp add: Collision_ResolvePose_def Collision_ResolvePose_parent_def split_def Let_def)

theorem Collision_ResolvePose_default_relative_to_witness:
  "Collision_ResolvePose exampleResolvePose exampleCollision ''world'' 1 =
     (fst (exampleResolvePose [(''link'', ''world'')] ''link'' ''world'' 1),
      snd (exampleResolvePose [(''link'', ''world'')] ''link'' ''world'' 1) * 3) \<and>
   Collision_ResolvePose exampleResolvePose exampleCollision ''world'' 1 = ([], 15) \<and>
   Collision_ResolvePose_parent exampleResolvePose exampleCollision 1 =
     ([Error POSE_RELATIVE_TO_INVALID ''link''], 21)"
  using Collision_ResolvePose_default_relative_to
    [of exampleCollision "[(''link'', ''world'')]" exampleResolvePose "''world''" 1]
  by (simp add: exampleCollision_def exampleResolvePose_def)

text \<open>
  Claim C10. \<^verbatim>\<open>Collision::ResolvePose(_relativeTo, _pose)\<close> resolves from the collision's
  relative-to frame (\<^verbatim>\<open>PoseRelativeTo()\<close>, or the XML parent's name when that is empty) to
  the requested frame and then multiplies the pose left by the graph function by the
  collision's raw \<^verbatim>\<open>Pose()\<close>. Nothing in that branch looks at the returned errors, so the
  multiplication is done whether or not the list is empty. The two early returns, for an
  expired graph and for an empty XML parent name, are the branches that hand the
  caller's pose back as it was, each with an error.
\<close>

theorem Collision_ResolvePose_output:
  "(Collision_poseRelativeToGraph c = None \<or> Collision_xmlParentName c = [] \<longrightarrow>
      snd (Collision_ResolvePose resolvePose c relativeTo pose) = pose \<and>
      fst (Collision_ResolvePose resolvePose c relativeTo pose) \<noteq> []) \<and>
   (\<forall>graph. Collision_poseRelativeToGraph c = Some graph \<and> Collision_xmlParentName c \<noteq> [] \<longrightarrow>
      Collision_ResolvePose resolvePose c relativeTo pose =
        (fst (resolvePose graph
                (if Collision_poseRelativeTo c = [] then Collision_xmlParentName c
                 else Collision_poseRelativeTo c) relativeTo pose),
         snd (resolvePose graph
                (if Collision_poseRelativeTo c = [] then Collision_xmlParentName c
                 else Collision_poseRelativeTo c) relativeTo pose) * Collision_pose c))"
  by (auto simp: Collision_ResolvePose_def split_def Let_def split: option.splits)

theorem Collision_ResolvePose_output_witness:
  "Collision_ResolvePose exampleResolvePose
     (exampleCollision\<lparr>Collision_poseRelativeTo := ''arm''\<rparr>) ''world'' 1 =
     ([Error POSE_RELATIVE_TO_INVALID ''world''], 21) \<and>
   Collision_ResolvePose exampleResolvePose exampleCollision ''world'' 1 = ([], 15) \<and>
   snd (Collision_ResolvePose exampleResolvePose
          (exampleCollision\<lparr>Collision_xmlParentName := []\<rparr>) ''world'' 1) = 1 \<and>
   fst (Collision_ResolvePose exampleResolvePose
          (exampleCollision\<lparr>Collision_xmlParentName := []\<rparr>) ''world'' 1) \<noteq> []"
  using Collision_ResolvePose_output
    [of "exampleCollision\<lparr>Collision_poseRelativeTo := ''arm''\<rparr>" exampleResolvePose "''world''" 1]
    Collision_ResolvePose_output [of exampleCollision exampleResolvePose "''world''" 1]
    Collision_ResolvePose_output
    [of "exampleCollision\<lparr>Collision_xmlParentName := []\<rparr>" exampleResolvePose "''world''" 1]
  by (simp add: exampleCollision_def exampleResolvePose_def)

section \<open>Index-based accessors\<close>

lemma vector_index_in_range:
  "i < vector_size v \<Longrightarrow> unat i < length v \<and> vector_index v i = PointerTo (unat i) (v ! unat i)"
proof -
  assume "i < vector_size v"
  then have "unat i < unat (word_of_nat (length v) :: 64 word)"
    by (simp add: vector_size_def word_less_nat_alt)
  also have "\<dots> \<le> length v"
    by (simp add: unat_of_nat)
  finally show ?thesis by (simp add: vector_index_def)
qed

lemma accessor_cases:
  "(i < vector_size v \<longrightarrow>
      unat i < length v \<and>
      (if i < vector_size v then vector_index v i else Nullptr) = PointerTo (unat i) (v ! unat i)) \<and>
   (vector_size v \<le> i \<longrightarrow> (if i < vector_size v then vector_index v i else Nullptr) = Nullptr) \<and>
   (if i < vector_size v then vector_index v i else Nullptr) \<noteq> OutOfRange"
  using vector_index_in_range [of i v] by (auto simp: not_less [symmetric])

text \<open>
  Claim C9. Each index-based accessor, for every index: when the index is strictly less
  than the corresponding count it returns the address of the stored element at that
  position, which lies inside the vector; when the index is greater than or equal to the
  count it returns the null pointer; and it never indexes the vector out of bounds.
\<close>

theorem index_accessors:
  "((index < WaypointCount t \<longrightarrow>
       unat index < length (Trajectory_waypoints t) \<and>
       WaypointByIndex t index = PointerTo (unat index) (Trajectory_waypoints t ! unat index)) \<and>
    (WaypointCount t \<le> index \<longrightarrow> WaypointByIndex t index = Nullptr) \<and>
    WaypointByIndex t index \<noteq> OutOfRange) \<and>
   ((index < AnimationCount a \<longrightarrow>
       unat index < length (Actor_animations a) \<and>
       AnimationByIndex a index = PointerTo (unat index) (Actor_animations a ! unat index)) \<and>
    (AnimationCount a \<le> index \<longrightarrow> AnimationByIndex a index = Nullptr) \<and>
    AnimationByIndex a index \<noteq> OutOfRange) \<and>
   ((index < TrajectoryCount a \<longrightarrow>
       unat index < length (Actor_trajectories a) \<and>
       TrajectoryByIndex a index = PointerTo (unat index) (Actor_trajectories a ! unat index)) \<and>
    (TrajectoryCount a \<le> index \<longrightarrow> TrajectoryByIndex a index = Nullptr) \<and>
    TrajectoryByIndex a index \<noteq> OutOfRange) \<and>
   ((index < LinkCount a \<longrightarrow>
       unat index < length (Actor_links a) \<and>
       LinkByIndex a index = PointerTo (unat index) (Actor_links a ! unat index)) \<and>
    (LinkCount a \<le> index \<longrightarrow> LinkByIndex a index = Nullptr) \<and>
    LinkByIndex a index \<noteq> OutOfRange) \<and>
   ((index < JointCount a \<longrightarrow>
       unat index < length (Actor_joints a) \<and>
       JointByIndex a index = PointerTo (unat index) (Actor_joints a ! unat index)) \<and>
    (JointCount a \<le> index \<longrightarrow> JointByIndex a index = Nullptr) \<and>
    JointByIndex a index \<noteq> OutOfRange)"
  unfolding WaypointCount_def WaypointByIndex_def AnimationCount_def AnimationByIndex_def
    TrajectoryCount_def TrajectoryByIndex_def LinkCount_def LinkByIndex_def
    JointCount_def JointByIndex_def
  using accessor_cases [of index "Trajectory_waypoints t"]
    accessor_cases [of index "Actor_animations a"]
    accessor_cases [of index "Actor_trajectories a"]
    accessor_cases [of index "Actor_links a"]
    accessor_cases [of index "Actor_joints a"]
  by blast

theorem index_accessors_witness:
  "WaypointByIndex exampleTrajectory 1 = PointerTo 1 \<lparr>Waypoint_time = 1, Waypoint_pose = 11\<rparr> \<and>
   WaypointByIndex exampleTrajectory 2 = Nullptr \<and>
   AnimationByIndex exampleLoadedActor 1 = PointerTo 1 Animation_new \<and>
   AnimationByIndex exampleLoadedActor 2 = Nullptr \<and>
   TrajectoryByIndex exampleLoadedActor 1 = PointerTo 1 exampleTrajectory \<and>
   TrajectoryByIndex exampleLoadedActor 2 = Nullptr \<and>
   LinkByIndex exampleLoadedActor 1 = PointerTo 1 ''l1'' \<and>
   LinkByIndex exampleLoadedActor (- 1) = Nullptr \<and>
   JointByIndex exampleLoadedActor 1 = PointerTo 1 ''j1'' \<and>
   JointByIndex exampleLoadedActor 2 = Nullptr"
proof -
  have counts:
    "WaypointCount exampleTrajectory = 2" "AnimationCount exampleLoadedActor = 2"
    "TrajectoryCount exampleLoadedActor = 2" "LinkCount exampleLoadedActor = 2"
    "JointCount exampleLoadedActor = 2"
    by (simp_all add: WaypointCount_def AnimationCount_def TrajectoryCount_def LinkCount_def
        JointCount_def vector_size_def exampleTrajectory_def exampleLoadedActor_def Actor_new_def)
  have lists:
    "Trajectory_waypoints exampleTrajectory ! 1 = \<lparr>Waypoint_time = 1, Waypoint_pose = 11\<rparr>"
    "Actor_animations exampleLoadedActor ! 1 = Animation_new"
    "Actor_trajectories exampleLoadedActor ! 1 = exampleTrajectory"
    "Actor_links exampleLoadedActor ! 1 = ''l1''"
    "Actor_joints exampleLoadedActor ! 1 = ''j1''"
    by (simp_all add: exampleTrajectory_def exampleLoadedActor_def Actor_new_def)
  have less: "(1 :: 64 word) < 2" "(2 :: 64 word) \<le> 2" "(2 :: 64 word) \<le> - 1"
    by simp_all
  from index_accessors [of 1 exampleTrajectory exampleLoadedActor]
    index_accessors [of 2 exampleTrajectory exampleLoadedActor]
    index_accessors [of "- 1" exampleTrajectory exampleLoadedActor]
  show ?thesis
    unfolding counts using less lists by simp
qed

section \<open>Loading repeated elements\<close>

lemma upt_0_Suc: "[0..<Suc n] = 0 # map Suc [0..<n]"
  by (simp add: upt_conv_Cons map_Suc_upt del: upt_Suc)

lemma no_children: "\<not> HasElement sdf sdfName \<Longrightarrow> ChildrenOfKind sdf sdfName = []"
  by (simp add: HasElement_def ChildrenOfKind_def find_None_iff filter_empty_conv)

text \<open>
  The loop of \<^verbatim>\<open>loadUniqueRepeated\<close>, started after the siblings \<open>pre\<close> with their names
  recorded: what it appends to the errors and to the objects.
\<close>

lemma loadUniqueRepeated_loop_char:
  "set names = set (map nameOf pre) \<Longrightarrow>
   \<exists>names'. loadUniqueRepeated_loop Load sdfName es (errors, objs, names) =
     (errors @ concat (map (\<lambda>i. (if repeatsEarlierName (pre @ es) (length pre + i)
                                   then [duplicateNameError sdfName (nameOf (es ! i))] else [])
                                  @ fst (Load (es ! i))) [0..<length es]),
      objs @ map (\<lambda>i. snd (Load (es ! i)))
               (filter (\<lambda>i. \<not> repeatsEarlierName (pre @ es) (length pre + i)) [0..<length es]),
      names')"
proof (induction es arbitrary: pre errors objs names)
  case Nil
  then show ?case by simp
next
  case (Cons e rest)
  have rep: "\<And>i. repeatsEarlierName (pre @ e # rest) (length pre + Suc i) =
                  repeatsEarlierName ((pre @ [e]) @ rest) (length (pre @ [e]) + i)"
    by simp
  have rep0: "repeatsEarlierName (pre @ e # rest) (length pre + 0) = (nameOf e \<in> set names)"
    using Cons.prems by (simp add: repeatsEarlierName_def)
  show ?case
  proof (cases "nameOf e \<in> set names")
    case True
    then have inv: "set names = set (map nameOf (pre @ [e]))"
      using Cons.prems by auto
    from Cons.IH [OF inv]
    obtain names' where
      "loadUniqueRepeated_loop Load sdfName rest
         ((errors @ [duplicateNameError sdfName (nameOf e)]) @ fst (Load e), objs, names) =
       (((errors @ [duplicateNameError sdfName (nameOf e)]) @ fst (Load e)) @
          concat (map (\<lambda>i. (if repeatsEarlierName ((pre @ [e]) @ rest) (length (pre @ [e]) + i)
                             then [duplicateNameError sdfName (nameOf (rest ! i))] else [])
                            @ fst (Load (rest ! i))) [0..<length rest]),
        objs @ map (\<lambda>i. snd (Load (rest ! i)))
                 (filter (\<lambda>i. \<not> repeatsEarlierName ((pre @ [e]) @ rest) (length (pre @ [e]) + i))
                    [0..<length rest]),
        names')" by blast
    with True rep0 show ?thesis
      by (simp only: rep [symmetric])
        (simp add: upt_0_Suc split_def Let_def nameOf_def [symmetric] filter_map o_def
              cong: if_cong del: upt_Suc)
  next
    case False
    then have inv: "set (names @ [nameOf e]) = set (map nameOf (pre @ [e]))"
      using Cons.prems by auto
    from Cons.IH [OF inv]
    obtain names' where
      "loadUniqueRepeated_loop Load sdfName rest
         (errors @ fst (Load e), objs @ [snd (Load e)], names @ [nameOf e]) =
       ((errors @ fst (Load e)) @
          concat (map (\<lambda>i. (if repeatsEarlierName ((pre @ [e]) @ rest) (length (pre @ [e]) + i)
                             then [duplicateNameError sdfName (nameOf (rest ! i))] else [])
                            @ fst (Load (rest ! i))) [0..<length rest]),
        (objs @ [snd (Load e)]) @ map (\<lambda>i. snd (Load (rest ! i)))
                 (filter (\<lambda>i. \<not> repeatsEarlierName ((pre @ [e]) @ rest) (length (pre @ [e]) + i))
                    [0..<length rest]),
        names')" by blast
    with False rep0 show ?thesis
      by (simp only: rep [symmetric])
        (simp add: upt_0_Suc split_def Let_def nameOf_def [symmetric] filter_map o_def
              cong: if_cong del: upt_Suc)
  qed
qed

text \<open>
  Claim C5. \<^verbatim>\<open>loadUniqueRepeated\<close> over the siblings named \<open>sdfName\<close>, in document order.
  The errors are, sibling by sibling, one \<^verbatim>\<open>DUPLICATE_NAME\<close> error when the sibling repeats
  the name of an earlier one, followed by that sibling's own load errors, and nothing
  else: a sibling that loads without error and repeats no name adds no error. The
  objects appended to the output are those of the siblings that repeat no earlier name,
  so of each name only the first occurrence is kept and every other sibling is loaded
  as usual.
\<close>

theorem loadUniqueRepeated_duplicates:
  "loadUniqueRepeated Load sdf sdfName objs =
     (concat (map (\<lambda>i. (if repeatsEarlierName (ChildrenOfKind sdf sdfName) i
                          then [duplicateNameError sdfName (nameOf (ChildrenOfKind sdf sdfName ! i))]
                          else [])
                         @ fst (Load (ChildrenOfKind sdf sdfName ! i)))
                [0..<length (ChildrenOfKind sdf sdfName)]),
      objs @ map (\<lambda>i. snd (Load (ChildrenOfKind sdf sdfName ! i)))
               (filter (\<lambda>i. \<not> repeatsEarlierName (ChildrenOfKind sdf sdfName) i)
                  [0..<length (ChildrenOfKind sdf sdfName)]))"
proof (cases "HasElement sdf sdfName")
  case True
  from loadUniqueRepeated_loop_char [of "[]" "[]" Load sdfName "ChildrenOfKind sdf sdfName" "[]" objs]
  show ?thesis using True by (auto simp: loadUniqueRepeated_def)
next
  case False
  with no_children [OF False] show ?thesis by (simp add: loadUniqueRepeated_def)
qed

theorem loadUniqueRepeated_duplicates_witness:
  "loadUniqueRepeated (Animation_Load Animation_new) exampleActor ''animation'' [] =
     ([Error DUPLICATE_NAME ''animation with name[walk] already exists.''],
      [\<lparr>Animation_name = ''walk'', Animation_filename = ''walk.dae'',
        Animation_scale = 1, Animation_interpolateX = False\<rparr>,
       \<lparr>Animation_name = ''run'', Animation_filename = ''run.dae'',
        Animation_scale = 1, Animation_interpolateX = False\<rparr>])"
proof -
  have children: "ChildrenOfKind exampleActor ''animation'' =
      [exampleAnimation ''walk'' ''walk.dae'', exampleAnimation ''walk'' ''walk2.dae'',
       exampleAnimation ''run'' ''run.dae'']"
    by (simp add: ChildrenOfKind_def exampleActor_def exampleAnimation_def)
  have names: "nameOf (exampleAnimation n f :: int Element) = n" for n f
    by (simp add: nameOf_def loadName_def Get_string_def lookupValue_def exampleAnimation_def)
  have loads: "Animation_Load Animation_new (exampleAnimation n f :: int Element) =
      ([], \<lparr>Animation_name = n, Animation_filename = f,
            Animation_scale = 1, Animation_interpolateX = False\<rparr>)" for n f
    by (simp add: Animation_Load_def Animation_new_def loadName_def Get_string_def Get_double_def
        Get_bool_def lookupValue_def GetElement_def exampleAnimation_def)
  have upt: "[0..<3] = [0, 1, 2]" by (simp add: upt_rec)
  from loadUniqueRepeated_duplicates [of "Animation_Load Animation_new" exampleActor "''animation''" "[]"]
  show ?thesis
    unfolding children
    by (simp add: upt repeatsEarlierName_def names loads duplicateNameError_def)
qed

lemma loadRepeated_loop_char:
  "loadRepeated_loop Load obj0 beforeLoadFunc es (errors, objs) =
     (errors @ concat (map (\<lambda>e. fst (Load (case beforeLoadFunc of Some f \<Rightarrow> f obj0 | None \<Rightarrow> obj0) e)) es),
      objs @ map (\<lambda>e. snd (Load (case beforeLoadFunc of Some f \<Rightarrow> f obj0 | None \<Rightarrow> obj0) e)) es)"
  by (induction es arbitrary: errors objs) (simp_all add: split_def Let_def)

lemma loadRepeated_char:
  "loadRepeated Load obj0 beforeLoadFunc sdf sdfName objs =
     (concat (map (\<lambda>e. fst (Load (case beforeLoadFunc of Some f \<Rightarrow> f obj0 | None \<Rightarrow> obj0) e))
                (ChildrenOfKind sdf sdfName)),
      objs @ map (\<lambda>e. snd (Load (case beforeLoadFunc of Some f \<Rightarrow> f obj0 | None \<Rightarrow> obj0) e))
               (ChildrenOfKind sdf sdfName))"
proof (cases "HasElement sdf sdfName")
  case True
  then show ?thesis by (simp add: loadRepeated_def loadRepeated_loop_char)
next
  case False
  with no_children [OF False] show ?thesis by (simp add: loadRepeated_def)
qed

section \<open>Loading an actor\<close>

lemma Actor_Load_errors:
  "GetName sdf = ''actor'' \<Longrightarrow>
   fst (Actor_Load Link_Load link0 Joint_Load joint0 zero a sdf) =
     (if snd (loadName sdf) then []
      else [Error ATTRIBUTE_MISSING ''An actor name is required, but the name is not set.'']) @
     (case GetElement sdf ''skin'' of
        None \<Rightarrow> []
      | Some skinElem \<Rightarrow>
          if snd (Get_string skinElem ''filename'' (Actor_skinFilename a)) then []
          else [Error ELEMENT_MISSING ''A <skin> requires a <filename>.'']) @
     fst (loadUniqueRepeated (Animation_Load Animation_new) sdf ''animation'' (Actor_animations a)) @
     (case GetElement sdf ''script'' of
        None \<Rightarrow> [Error ELEMENT_MISSING ''An <actor> requires a <script>.'']
      | Some scriptElem \<Rightarrow>
          fst (loadRepeated (Trajectory_Load zero) Trajectory_new None scriptElem ''trajectory''
                 (Actor_trajectories a))) @
     fst (loadRepeated Link_Load link0 None sdf ''link'' (Actor_links a)) @
     fst (loadRepeated Joint_Load joint0 None sdf ''joint'' (Actor_joints a))"
proof -
  assume actor: "GetName sdf = ''actor''"
  show ?thesis
  proof (cases "GetElement sdf ''skin''")
    case None
    note skin = this
    show ?thesis
    proof (cases "GetElement sdf ''script''")
      case None
      with actor skin show ?thesis by (simp add: Actor_Load_def Let_def split_def)
    next
      case (Some scriptElem)
      with actor skin show ?thesis by (simp add: Actor_Load_def Let_def split_def)
    qed
  next
    case (Some skinElem)
    note skin = this
    show ?thesis
    proof (cases "GetElement sdf ''script''")
      case None
      with actor skin show ?thesis by (simp add: Actor_Load_def Let_def split_def)
    next
      case (Some scriptElem)
      with actor skin show ?thesis by (simp add: Actor_Load_def Let_def split_def)
    qed
  qed
qed

text \<open>
  Claim C6. Loading an \<^verbatim>\<open><actor>\<close> element goes through every step and returns all the
  errors together, in order: the missing name, the skin's missing filename, the errors of
  the animations, the missing script or else the errors of its trajectories, the errors
  of the links and the errors of the joints. No step is skipped because an earlier one
  reported an error. (An element that is not an \<^verbatim>\<open><actor>\<close> is refused at once, before
  anything is read from it.) \<^verbatim>\<open>loadRepeated\<close> returns the load errors of all the children
  and appends the object of every child to the output, whether or not its load reported
  errors.
\<close>

theorem Actor_Load_accumulates:
  "(GetName sdf = ''actor'' \<longrightarrow>
      fst (Actor_Load Link_Load link0 Joint_Load joint0 zero a sdf) =
        (if snd (loadName sdf) then []
         else [Error ATTRIBUTE_MISSING ''An actor name is required, but the name is not set.'']) @
        (case GetElement sdf ''skin'' of
           None \<Rightarrow> []
         | Some skinElem \<Rightarrow>
             if snd (Get_string skinElem ''filename'' (Actor_skinFilename a)) then []
             else [Error ELEMENT_MISSING ''A <skin> requires a <filename>.'']) @
        fst (loadUniqueRepeated (Animation_Load Animation_new) sdf ''animation''
               (Actor_animations a)) @
        (case GetElement sdf ''script'' of
           None \<Rightarrow> [Error ELEMENT_MISSING ''An <actor> requires a <script>.'']
         | Some scriptElem \<Rightarrow>
             fst (loadRepeated (Trajectory_Load zero) Trajectory_new None scriptElem
                    ''trajectory'' (Actor_trajectories a))) @
        fst (loadRepeated Link_Load link0 None sdf ''link'' (Actor_links a)) @
        fst (loadRepeated Joint_Load joint0 None sdf ''joint'' (Actor_joints a))) \<and>
   loadRepeated Load obj0 beforeLoadFunc elem sdfName objs =
     (concat (map (\<lambda>e. fst (Load (case beforeLoadFunc of Some f \<Rightarrow> f obj0 | None \<Rightarrow> obj0) e))
                (ChildrenOfKind elem sdfName)),
      objs @ map (\<lambda>e. snd (Load (case beforeLoadFunc of Some f \<Rightarrow> f obj0 | None \<Rightarrow> obj0) e))
               (ChildrenOfKind elem sdfName))"
  using Actor_Load_errors [of sdf Link_Load link0 Joint_Load joint0 zero a]
    loadRepeated_char [of Load obj0 beforeLoadFunc elem sdfName objs]
  by blast

theorem Actor_Load_accumulates_witness:
  "fst (Actor_Load exampleLinkLoad [] exampleLinkLoad [] 0 (Actor_new 0) exampleActor) =
     [Error ATTRIBUTE_MISSING ''An actor name is required, but the name is not set.'',
      Error ELEMENT_MISSING ''A <skin> requires a <filename>.'',
      Error DUPLICATE_NAME ''animation with name[walk] already exists.'',
      Error ELEMENT_MISSING ''An <actor> requires a <script>.'',
      Error ATTRIBUTE_MISSING ''A link name is required, but the name is not set.''] \<and>
   loadRepeated exampleLinkLoad [] None exampleActor ''link'' [''l0''] =
     ([Error ATTRIBUTE_MISSING ''A link name is required, but the name is not set.''],
      [''l0'', ''l1'', []])"
proof -
  have actor: "GetName exampleActor = ''actor''" by (simp add: exampleActor_def)
  have e: "fst (Actor_Load exampleLinkLoad [] exampleLinkLoad [] 0 (Actor_new 0) exampleActor) =
     [Error ATTRIBUTE_MISSING ''An actor name is required, but the name is not set.'',
      Error ELEMENT_MISSING ''A <skin> requires a <filename>.'',
      Error DUPLICATE_NAME ''animation with name[walk] already exists.'',
      Error ELEMENT_MISSING ''An <actor> requires a <script>.'',
      Error ATTRIBUTE_MISSING ''A link name is required, but the name is not set.'']"
    by code_simp
  have r: "loadRepeated exampleLinkLoad [] None exampleActor ''link'' [''l0''] =
     ([Error ATTRIBUTE_MISSING ''A link name is required, but the name is not set.''],
      [''l0'', ''l1'', []])"
    by code_simp
  from Actor_Load_accumulates
    [of exampleActor exampleLinkLoad "[]" exampleLinkLoad "[]" 0 "Actor_new 0"
        exampleLinkLoad "[]" None exampleActor "''link''" "[''l0'']"]
    actor e r
  show ?thesis by blast
qed

section \<open>Reserved names\<close>







section \<open>The frame graphs: walks to the root\<close>

text \<open>The walks are unfolded one step at a time, by hand.\<close>

declare attachedWalk.simps [simp del]

declare walkToRoot.simps [simp del]

lemma findVertex_Some: "findVertex g n = Some v \<Longrightarrow> v \<in> set (vertices g) \<and> name v = n"
  by (auto simp: findVertex_def find_Some_iff)

lemma outgoing_Some: "outgoing g n = Some e \<Longrightarrow> e \<in> set (edges g) \<and> edgeFrom e = n"
  by (auto simp: outgoing_def find_Some_iff)

lemma reachIn_unique: "reachIn g k n \<Longrightarrow> reachIn g k' n \<Longrightarrow> k = k'"
proof (induction k arbitrary: k' n)
  case 0
  then show ?case by (cases k') auto
next
  case (Suc k)
  then show ?case by (cases k') (auto split: option.splits)
qed

lemma reachesRoot_reachIn: "reachesRoot g hops n \<Longrightarrow> \<exists>k\<le>hops. reachIn g k n"
proof (induction hops arbitrary: n)
  case 0
  then have "reachIn g 0 n" by simp
  then show ?case by blast
next
  case (Suc hops)
  show ?case
  proof (cases "n = root g")
    case True
    then have "reachIn g 0 n" by simp
    then show ?thesis by blast
  next
    case False
    with Suc.prems obtain e where e: "outgoing g n = Some e" "reachesRoot g hops (edgeTo e)"
      by (auto split: option.splits)
    from Suc.IH [OF e(2)] obtain k where "k \<le> hops" "reachIn g k (edgeTo e)" by blast
    with False e(1) have "Suc k \<le> Suc hops" "reachIn g (Suc k) n" by simp_all
    then show ?thesis by blast
  qed
qed

lemma valid_reach:
  assumes "validGraph g" "findVertex g n \<noteq> None"
  shows "\<exists>k\<le>vertexCount g. reachIn g k n"
proof -
  from assms(2) obtain v where v: "findVertex g n = Some v" by auto
  then have "v \<in> set (vertices g)" "name v = n" using findVertex_Some by blast+
  with assms(1) have "reachesRoot g (vertexCount g) n"
    by (auto simp: validGraph_def list_all_iff)
  then show ?thesis by (rule reachesRoot_reachIn)
qed

lemma valid_edge_target:
  "validGraph g \<Longrightarrow> outgoing g n = Some e \<Longrightarrow> findVertex g (edgeTo e) \<noteq> None"
  using outgoing_Some [of g n e] by (auto simp: validGraph_def list_all_iff)

lemma valid_root_terminal:
  "validGraph g \<Longrightarrow> findVertex g (root g) = Some v \<Longrightarrow> canonicalTerminal (kind v)"
  by (auto simp: validGraph_def canonicalTerminal_def split: option.splits)

lemma attachedWalk_terminal:
  "attachedWalk g hops visited n = Inr v \<Longrightarrow> canonicalTerminal (kind v) \<and> v \<in> set (vertices g)"
proof (induction hops arbitrary: visited n)
  case 0
  then show ?case
    by (subst (asm) attachedWalk.simps)
      (auto split: option.splits if_splits dest: findVertex_Some)
next
  case (Suc hops)
  from Suc.prems show ?case
    by (subst (asm) attachedWalk.simps)
      (auto split: option.splits if_splits dest: Suc.IH findVertex_Some)
qed

lemma attachedWalk_succeeds:
  assumes valid: "validGraph g"
  shows "reachIn g k n \<Longrightarrow> k \<le> hops \<Longrightarrow> findVertex g n \<noteq> None \<Longrightarrow>
         (\<forall>m\<in>set visited. \<exists>j>k. reachIn g j m) \<Longrightarrow>
         \<exists>v. attachedWalk g hops visited n = Inr v"
proof (induction k arbitrary: hops visited n)
  case 0
  then obtain v where v: "findVertex g n = Some v" by auto
  from 0 have root: "n = root g" by simp
  have "n \<notin> set visited"
  proof
    assume "n \<in> set visited"
    with 0 obtain j where "j > 0" "reachIn g j n" by blast
    with "0.prems"(1) show False using reachIn_unique by blast
  qed
  with v root valid_root_terminal [OF valid] show ?case
    by (subst attachedWalk.simps) auto
next
  case (Suc k)
  then obtain v where v: "findVertex g n = Some v" by auto
  from Suc.prems(1) obtain e where e: "outgoing g n = Some e" "reachIn g k (edgeTo e)"
    by (auto split: option.splits)
  from Suc.prems(2) obtain h where h: "hops = Suc h" "k \<le> h" by (cases hops) auto
  have fresh: "n \<notin> set visited"
  proof
    assume "n \<in> set visited"
    with Suc.prems(4) obtain j where "j > Suc k" "reachIn g j n" by blast
    with Suc.prems(1) show False using reachIn_unique by blast
  qed
  have "\<forall>m\<in>set (n # visited). \<exists>j>k. reachIn g j m"
    using Suc.prems(1,4) by (auto intro: Suc_lessD)
  from Suc.IH [OF e(2) h(2) valid_edge_target [OF valid e(1)] this]
  obtain w where "attachedWalk g h (n # visited) (edgeTo e) = Inr w" by blast
  with v e(1) h(1) fresh show ?case
    by (subst attachedWalk.simps) auto
qed

lemma walkToRoot_succeeds:
  assumes valid: "validGraph g"
  shows "reachIn g k n \<Longrightarrow> k \<le> hops \<Longrightarrow> findVertex g n \<noteq> None \<Longrightarrow>
         (\<forall>m\<in>set visited. \<exists>j>k. reachIn g j m) \<Longrightarrow>
         \<exists>chain. walkToRoot g hops visited n acc = Inr chain"
proof (induction k arbitrary: hops visited n acc)
  case 0
  then obtain v where v: "findVertex g n = Some v" by auto
  from 0 have root: "n = root g" by simp
  have "n \<notin> set visited"
  proof
    assume "n \<in> set visited"
    with 0 obtain j where "j > 0" "reachIn g j n" by blast
    with "0.prems"(1) show False using reachIn_unique by blast
  qed
  with v root show ?case
    by (subst walkToRoot.simps) auto
next
  case (Suc k)
  then obtain v where v: "findVertex g n = Some v" by auto
  from Suc.prems(1) obtain e where e: "outgoing g n = Some e" "reachIn g k (edgeTo e)"
    and notroot: "n \<noteq> root g"
    by (auto split: option.splits)
  from Suc.prems(2) obtain h where h: "hops = Suc h" "k \<le> h" by (cases hops) auto
  have fresh: "n \<notin> set visited"
  proof
    assume "n \<in> set visited"
    with Suc.prems(4) obtain j where "j > Suc k" "reachIn g j n" by blast
    with Suc.prems(1) show False using reachIn_unique by blast
  qed
  have "\<forall>m\<in>set (n # visited). \<exists>j>k. reachIn g j m"
    using Suc.prems(1,4) by (auto intro: Suc_lessD)
  from Suc.IH [OF e(2) h(2) valid_edge_target [OF valid e(1)] this]
  obtain chain where "walkToRoot g h (n # visited) (edgeTo e) (compose (transform e) acc) = Inr chain"
    by blast
  with v e(1) h(1) fresh notroot show ?case
    by (subst walkToRoot.simps) auto
qed

lemma walkToRoot_chain:
  "walkToRoot g hops visited n acc = Inr chain \<Longrightarrow>
   chain \<noteq> [] \<and> hd chain = (n, acc) \<and> fst (last chain) = root g"
proof (induction hops arbitrary: visited n acc chain)
  case 0
  then show ?case
    by (subst (asm) walkToRoot.simps) (auto split: option.splits if_splits)
next
  case (Suc hops)
  from Suc.prems show ?case
    by (subst (asm) walkToRoot.simps)
      (auto split: option.splits if_splits sum.splits dest: Suc.IH)
qed

lemma lcaSearch_Nil2: "lcaSearch as [] found = found"
  by (cases as) auto

lemma lcaSearch_swap:
  "lcaSearch bs as (map_option prod.swap found) = map_option prod.swap (lcaSearch as bs found)"
  by (induction as bs found rule: lcaSearch.induct) (auto simp: lcaSearch_Nil2)

lemma lcaSearch_found: "lcaSearch as bs (Some x) \<noteq> None"
  by (induction as bs "Some x" arbitrary: x rule: lcaSearch.induct) auto

lemma lowestCommonAncestor_swap:
  "lowestCommonAncestor t s = map_option prod.swap (lowestCommonAncestor s t)"
  using lcaSearch_swap [of "rev t" "rev s" None] by (simp add: lowestCommonAncestor_def)

lemma lowestCommonAncestor_exists:
  assumes "s \<noteq> []" "t \<noteq> []" "fst (last s) = fst (last t)"
  shows "lowestCommonAncestor s t \<noteq> None"
proof -
  from assms obtain a ta s' where s: "rev s = (a, ta) # s'"
    by (cases "rev s") auto
  from assms obtain b tb t' where t: "rev t = (b, tb) # t'"
    by (cases "rev t") auto
  from s have "last s = (a, ta)" by (metis last_rev list.sel(1) rev_rev_ident)
  moreover from t have "last t = (b, tb)" by (metis last_rev list.sel(1) rev_rev_ident)
  ultimately have "a = b" using assms(3) by simp
  with s t show ?thesis by (simp add: lowestCommonAncestor_def lcaSearch_found)
qed


lemma resolveByWalks_inverse:
  assumes "resolveByWalks g A B = Inr p"
  shows "\<exists>q. resolveByWalks g B A = Inr q \<and> compose p q = Identity \<and> compose q p = Identity \<and>
             p = Inverse q"
proof -
  from assms obtain sa sb where
    sa: "walkToRoot g (vertexCount g) [] A Identity = Inr sa" and
    sb: "walkToRoot g (vertexCount g) [] B Identity = Inr sb"
    by (auto simp: resolveByWalks_def split: sum.splits)
  with assms obtain ta tb where
    lca: "lowestCommonAncestor sa sb = Some (ta, tb)" and p: "p = compose (Inverse tb) ta"
    by (auto simp: resolveByWalks_def split: option.splits)
  from lca have "lowestCommonAncestor sb sa = Some (tb, ta)"
    by (simp add: lowestCommonAncestor_swap [of sb sa])
  with sa sb have q: "resolveByWalks g B A = Inr (compose (Inverse ta) tb)"
    by (simp add: resolveByWalks_def)
  have "compose p (compose (Inverse ta) tb) = Identity"
    unfolding p by (simp add: add.assoc)
  moreover have "compose (compose (Inverse ta) tb) p = Identity"
    unfolding p by (simp add: add.assoc)
  moreover have "p = Inverse (compose (Inverse ta) tb)"
    unfolding p by (simp add: minus_add)
  ultimately show ?thesis using q by blast
qed

lemma resolveByWalks_succeeds:
  assumes valid: "validGraph g" and A: "findVertex g A \<noteq> None" and B: "findVertex g B \<noteq> None"
  shows "\<exists>p. resolveByWalks g A B = Inr p"
proof -
  from valid_reach [OF valid A] obtain ka where ka: "ka \<le> vertexCount g" "reachIn g ka A"
    by blast
  from valid_reach [OF valid B] obtain kb where kb: "kb \<le> vertexCount g" "reachIn g kb B"
    by blast
  from walkToRoot_succeeds [OF valid ka(2) ka(1) A, of "[]" Identity]
  obtain sa where sa: "walkToRoot g (vertexCount g) [] A Identity = Inr sa" by auto
  from walkToRoot_succeeds [OF valid kb(2) kb(1) B, of "[]" Identity]
  obtain sb where sb: "walkToRoot g (vertexCount g) [] B Identity = Inr sb" by auto
  from walkToRoot_chain [OF sa] walkToRoot_chain [OF sb]
  have "lowestCommonAncestor sa sb \<noteq> None"
    by (intro lowestCommonAncestor_exists) simp_all
  then obtain ta tb where "lowestCommonAncestor sa sb = Some (ta, tb)" by auto
  with sa sb show ?thesis by (simp add: resolveByWalks_def)
qed

lemma lcaSearch_same:
  "lcaSearch xs xs found = (if xs = [] then found else Some (snd (last xs), snd (last xs)))"
  by (induction xs arbitrary: found) auto

lemma resolveByWalks_self:
  assumes valid: "validGraph g" and X: "findVertex g X \<noteq> None"
  shows "resolveByWalks g X X = Inr Identity"
proof -
  from valid_reach [OF valid X] obtain k where k: "k \<le> vertexCount g" "reachIn g k X"
    by blast
  from walkToRoot_succeeds [OF valid k(2) k(1) X, of "[]" Identity]
  obtain s where s: "walkToRoot g (vertexCount g) [] X Identity = Inr s" by auto
  from walkToRoot_chain [OF s] have "s \<noteq> []" "hd s = (X, Identity)" by simp_all
  then have "lowestCommonAncestor s s = Some (Identity, Identity)"
    by (simp add: lowestCommonAncestor_def lcaSearch_same last_rev)
  with s show ?thesis by (simp add: resolveByWalks_def)
qed

section \<open>Pose resolution\<close>

text \<open>
  Claim C1. For every vertex \<open>X\<close> of a graph, \<^verbatim>\<open>ResolvePose(X, X)\<close> is the identity
  transform. No pose edge is traversed: the answer is the same whatever edges the graph
  has, also edges on which a walk would fail. In a validly built graph the walks of the
  general algorithm, had they been made, give the identity as well.
\<close>

theorem ResolvePose_self:
  "findVertex g X \<noteq> None \<Longrightarrow>
     ResolvePose g X X = Inr Identity \<and>
     (\<forall>es. ResolvePose (g\<lparr>edges := es\<rparr>) X X = Inr Identity) \<and>
     (validGraph g \<longrightarrow> resolveByWalks g X X = Inr Identity)"
  by (simp add: ResolvePose_def findVertex_def resolveByWalks_self)

theorem ResolvePose_self_witness:
  "ResolvePose examplePoseGraph ''arm'' ''arm'' = Inr Identity \<and>
   ResolvePose (examplePoseGraph\<lparr>edges := [\<lparr>edgeFrom = ''arm'', edgeTo = ''arm'', transform = 1\<rparr>]\<rparr>)
     ''arm'' ''arm'' = Inr Identity \<and>
   validGraph examplePoseGraph \<and>
   resolveByWalks examplePoseGraph ''arm'' ''arm'' = Inr Identity"
proof -
  have X: "findVertex examplePoseGraph ''arm'' \<noteq> None" by code_simp
  have valid: "validGraph examplePoseGraph" by code_simp
  from ResolvePose_self [OF X] valid show ?thesis by blast
qed

text \<open>
  Claim C2. In a validly built graph, for all vertices \<open>A\<close> and \<open>B\<close>, both
  \<^verbatim>\<open>ResolvePose(A, B)\<close> and \<^verbatim>\<open>ResolvePose(B, A)\<close> return a transform, each composed with
  the other is the identity, and the first is the inverse of the second. Transforms are
  exact here; the rounding of floating-point composition is not modelled.
\<close>

theorem ResolvePose_inverse:
  "validGraph g \<Longrightarrow> findVertex g A \<noteq> None \<Longrightarrow> findVertex g B \<noteq> None \<Longrightarrow>
     \<exists>p q. ResolvePose g A B = Inr p \<and> ResolvePose g B A = Inr q \<and>
           compose p q = Identity \<and> compose q p = Identity \<and> p = Inverse q"
proof (cases "A = B")
  case True
  assume "findVertex g A \<noteq> None"
  with True show ?thesis by (simp add: ResolvePose_def)
next
  case False
  assume valid: "validGraph g" and A: "findVertex g A \<noteq> None" and B: "findVertex g B \<noteq> None"
  from resolveByWalks_succeeds [OF valid A B] obtain p where p: "resolveByWalks g A B = Inr p"
    by blast
  from resolveByWalks_inverse [OF p] obtain q where
    "resolveByWalks g B A = Inr q" "compose p q = Identity" "compose q p = Identity" "p = Inverse q"
    by blast
  with p False A B show ?thesis by (simp add: ResolvePose_def)
qed

theorem ResolvePose_inverse_witness:
  "validGraph examplePoseGraph \<and>
   ResolvePose examplePoseGraph ''arm'' ''cam'' = Inr (- 4) \<and>
   ResolvePose examplePoseGraph ''cam'' ''arm'' = Inr 4 \<and>
   (\<exists>p q. ResolvePose examplePoseGraph ''arm'' ''cam'' = Inr p \<and>
          ResolvePose examplePoseGraph ''cam'' ''arm'' = Inr q \<and>
          compose p q = Identity \<and> compose q p = Identity \<and> p = Inverse q)"
proof -
  have valid: "validGraph examplePoseGraph" by code_simp
  have A: "findVertex examplePoseGraph ''arm'' \<noteq> None" by code_simp
  have B: "findVertex examplePoseGraph ''cam'' \<noteq> None" by code_simp
  have ab: "ResolvePose examplePoseGraph ''arm'' ''cam'' = Inr (- 4)" by code_simp
  have ba: "ResolvePose examplePoseGraph ''cam'' ''arm'' = Inr 4" by code_simp
  from ResolvePose_inverse [OF valid A B] valid ab ba show ?thesis by blast
qed

section \<open>Attachment resolution\<close>

text \<open>
  Claim C8. In a validly built attachment graph, resolving the attachment chain from any
  vertex returns a vertex of the graph, and that vertex is a Link, the WorldRoot or a
  ModelPlaceholder: never a Joint, a Visual, a Collision or an explicit Frame.
\<close>

theorem ResolveAttachedTo_terminal:
  "validGraph g \<Longrightarrow> findVertex g n \<noteq> None \<Longrightarrow>
     \<exists>v. ResolveAttachedTo g n = Inr v \<and> v \<in> set (vertices g) \<and>
         (kind v = Link \<or> kind v = WorldRoot \<or> kind v = ModelPlaceholder) \<and>
         kind v \<noteq> Joint \<and> kind v \<noteq> Visual \<and> kind v \<noteq> Collision \<and> kind v \<noteq> ExplicitFrame"
proof -
  assume valid: "validGraph g" and n: "findVertex g n \<noteq> None"
  from valid_reach [OF valid n] obtain k where k: "k \<le> vertexCount g" "reachIn g k n"
    by blast
  from attachedWalk_succeeds [OF valid k(2) k(1) n, of "[]"]
  obtain v where v: "attachedWalk g (vertexCount g) [] n = Inr v" by auto
  from attachedWalk_terminal [OF v]
  have "canonicalTerminal (kind v)" "v \<in> set (vertices g)" by simp_all
  with v show ?thesis by (auto simp: ResolveAttachedTo_def canonicalTerminal_def)
qed

theorem ResolveAttachedTo_terminal_witness:
  "validGraph exampleAttachmentGraph \<and>
   ResolveAttachedTo exampleAttachmentGraph ''cam'' =
     Inr \<lparr>name = ''base'', scopeId = ''w'', kind = Link\<rparr> \<and>
   (\<exists>v. ResolveAttachedTo exampleAttachmentGraph ''cam'' = Inr v \<and>
        v \<in> set (vertices exampleAttachmentGraph) \<and>
        (kind v = Link \<or> kind v = WorldRoot \<or> kind v = ModelPlaceholder) \<and>
        kind v \<noteq> Joint \<and> kind v \<noteq> Visual \<and> kind v \<noteq> Collision \<and> kind v \<noteq> ExplicitFrame)"
proof -
  have valid: "validGraph exampleAttachmentGraph" by code_simp
  have n: "findVertex exampleAttachmentGraph ''cam'' \<noteq> None" by code_simp
  have r: "ResolveAttachedTo exampleAttachmentGraph ''cam'' =
             Inr \<lparr>name = ''base'', scopeId = ''w'', kind = Link\<rparr>" by code_simp
  from ResolveAttachedTo_terminal [OF valid n] valid r show ?thesis by blast
qed

end
